theory Spec2Isabelle
  imports Main "HOL-Library.Word"
begin

section \<open>Bitmain I2C high level analyzer: the data model\<close>

text \<open>
  The analyzer of \<^verbatim>\<open>HighLevelAnalyzer.py\<close> is one object (\<^verbatim>\<open>Hla\<close>) whose method
  \<^verbatim>\<open>decode\<close> is called by the host once per bus event, in order. The object's
  attributes are the record \<open>hla\<close>; \<^verbatim>\<open>decode\<close> is a function from the state and the
  event to the new state and what the call did (returned nothing, printed a
  diagnostic, returned a frame, or raised).

  Python integers are \<open>int\<close>. A bus byte (\<^verbatim>\<open>frame.data['data'][0]\<close>, an element of a
  \<^verbatim>\<open>bytes\<close> value) is an \<open>8 word\<close>, read as the Python integer \<open>uint b\<close>. Time stamps
  are opaque to the analyzer; they are natural numbers here.
\<close>

type_synonym byte = "8 word"
type_synonym time = nat

text \<open>
  The bus events the analyzer distinguishes. \<open>Error msg\<close> is any event whose data
  holds the key \<^verbatim>\<open>'error'\<close>; \<open>Start t\<close> carries \<^verbatim>\<open>frame.start_time\<close>;
  \<open>Address a r\<close> carries \<^verbatim>\<open>frame.data['address'][0]\<close> and \<^verbatim>\<open>frame.data['read']\<close>;
  \<open>Data b\<close> carries \<^verbatim>\<open>frame.data['data'][0]\<close>; \<open>Stop t\<close> carries \<^verbatim>\<open>frame.end_time\<close>;
  \<open>Other ty\<close> is an event of any other type.
\<close>

datatype event =
    Error string
  | Start time
  | Address byte bool
  | Data byte
  | Stop time
  | Other string

text \<open>The attributes set by \<^verbatim>\<open>Hla.__init__\<close> (the leading underscore is dropped).\<close>

record hla =
  byte_pos :: int
  start_of_transaction :: "time option"
  start_of_frame :: "time option"
  end_of_frame :: "time option"
  read :: bool
  last_read :: bool
  for_us :: bool
  preamble_offset :: int
  frame_len :: int
  code :: int
  type :: string
  payload :: "byte list"
  checksum_read :: int
  checksum_calc :: int

definition init :: hla where
  "init = \<lparr> byte_pos = 0, start_of_transaction = None, start_of_frame = None,
            end_of_frame = None, read = False, last_read = True, for_us = False,
            preamble_offset = 0, frame_len = 99, code = 99, type = '''',
            payload = [], checksum_read = 0, checksum_calc = 0 \<rparr>"

text \<open>
  The payload of an emitted frame is a string, except for the two voltage types, where
  the source formats a floating point product
  (\<^verbatim>\<open>v * 3.3 * 0.000244140625 * 7.599999904632568\<close>, \<^verbatim>\<open>f"{volt:10.3f}V"\<close>).
  Floating point is not modelled: \<open>Volt v\<close> stands for that rendering of the
  integer \<open>v\<close>.
\<close>

datatype payload_text = Text string | Volt int

text \<open>The \<^verbatim>\<open>AnalyzerFrame\<close> returned on a completed frame.\<close>

record analyzer_frame =
  f_type :: string
  f_start_time :: "time option"
  f_end_time :: "time option"
  f_direction :: string
  f_len :: string
  f_code :: string
  f_payload :: payload_text
  f_checksum :: string

datatype diagnostic =
    BusError string
  | MalformedPreamble nat byte

datatype exn = IndexError

text \<open>
  What one call of \<^verbatim>\<open>decode\<close> does besides changing the state: it returns \<^verbatim>\<open>None\<close>
  silently, prints a diagnostic and returns \<^verbatim>\<open>None\<close>, returns a frame, or raises.
\<close>

datatype outcome =
    Silent
  | Print diagnostic
  | Emit analyzer_frame
  | Raise exn

section \<open>The type tables\<close>

definition apw_types :: "int \<rightharpoonup> string" where
  "apw_types = map_of [(131, ''set_voltage'')]"

definition pic_types :: "int \<rightharpoonup> string" where
  "pic_types = map_of
     [(2, ''write_app''), (6, ''jump_app''), (7, ''init''), (9, ''erase_app''),
      (16, ''set_something_3''), (21, ''power_switch''), (22, ''heart_beat''),
      (23, ''get_fw_version''), (40, ''get_something_9''), (41, ''get_voltage''),
      (43, ''get_something_5''), (49, ''set_something_1'')]"

text \<open>\<^verbatim>\<open>get_type\<close>: the \<^verbatim>\<open>KeyError\<close> of a missing code is caught and gives "unknown".\<close>

definition get_type :: "string \<Rightarrow> int \<Rightarrow> string" where
  "get_type dev c =
     (if dev = ''APW'' then (case apw_types c of Some t \<Rightarrow> t | None \<Rightarrow> ''unknown'')
      else if dev = ''dsPIC'' then (case pic_types c of Some t \<Rightarrow> t | None \<Rightarrow> ''unknown'')
      else ''unknown'')"

section \<open>String formatting\<close>

definition digit_char :: "nat \<Rightarrow> char" where
  "digit_char n = ''0123456789abcdef'' ! n"

text \<open>\<^verbatim>\<open>f"{n}"\<close> for an integer.\<close>

function decimal :: "nat \<Rightarrow> string" where
  "decimal n = (if n < 10 then [digit_char n] else decimal (n div 10) @ [digit_char (n mod 10)])"
  by pat_completeness auto
termination
  by (relation "measure id") auto

declare decimal.simps [simp del]

definition str_int :: "int \<Rightarrow> string" where
  "str_int i = (if i < 0 then CHR ''-'' # decimal (nat (- i)) else decimal (nat i))"

text \<open>\<^verbatim>\<open>format(x, '02x')\<close> for a byte.\<close>

definition hex02 :: "byte \<Rightarrow> string" where
  "hex02 x = [digit_char (unat x div 16), digit_char (unat x mod 16)]"

section \<open>decode\<close>

text \<open>The branch \<^verbatim>\<open>frame.type == 'start'\<close>.\<close>

definition decode_start :: "hla \<Rightarrow> time \<Rightarrow> hla \<times> outcome" where
  "decode_start s t =
     (let s1 = s\<lparr>start_of_transaction := Some t\<rparr> in
      (if byte_pos s1 = 0 then s1\<lparr>start_of_frame := Some t\<rparr> else s1, Silent))"

text \<open>The branch \<^verbatim>\<open>frame.type == 'address'\<close>; \<open>dev\<close> is the setting \<^verbatim>\<open>bm_device\<close>.\<close>

definition expected_addr :: "string \<Rightarrow> byte" where
  "expected_addr dev = (if dev = ''APW'' then 0x10 else if dev = ''dsPIC'' then 0x20 else 0xFF)"

definition decode_address :: "string \<Rightarrow> hla \<Rightarrow> byte \<Rightarrow> bool \<Rightarrow> hla \<times> outcome" where
  "decode_address dev s a r =
     (if a = expected_addr dev then
        (let s1 = s\<lparr>for_us := True\<rparr>;
             s2 = s1\<lparr>read := r\<rparr> in
         (if read s2 \<and> dev = ''dsPIC'' then s2\<lparr>preamble_offset := 0\<rparr>
          else s2\<lparr>preamble_offset := 2\<rparr>, Silent))
      else (s\<lparr>for_us := False\<rparr>, Silent))"

text \<open>
  The branch \<^verbatim>\<open>frame.type == 'data'\<close>, in three parts as in the source: the preamble
  check (which returns at positions 0 and 1 when a preamble is expected, whatever the
  byte), the checksum accumulation, and the parse by position.
\<close>

definition accumulate :: "hla \<Rightarrow> int \<Rightarrow> hla" where
  "accumulate s raw =
     (if byte_pos s \<ge> 0 + preamble_offset s \<and> byte_pos s < frame_len s - 2 + preamble_offset s
      then s\<lparr>checksum_calc := checksum_calc s + raw\<rparr> else s)"

definition parse :: "string \<Rightarrow> hla \<Rightarrow> byte \<Rightarrow> hla" where
  "parse dev s b =
     (let raw = uint b in
      if byte_pos s = 0 + preamble_offset s then s\<lparr>frame_len := raw\<rparr>
      else if byte_pos s = 1 + preamble_offset s then
        (let s1 = (if raw = 1 then (s\<lparr>code := frame_len s\<rparr>)\<lparr>frame_len := 2\<rparr>
                   else s\<lparr>code := raw\<rparr>)
         in s1\<lparr>type := get_type dev (code s1)\<rparr>)
      else if byte_pos s = frame_len s - 2 + preamble_offset s then
        (if dev = ''APW'' \<and> read s then s\<lparr>checksum_read := raw\<rparr>
         else s\<lparr>checksum_read := push_bit 8 raw\<rparr>)
      else if byte_pos s = frame_len s - 1 + preamble_offset s then
        (if dev = ''APW'' \<and> read s then s\<lparr>checksum_read := checksum_read s + push_bit 8 raw\<rparr>
         else s\<lparr>checksum_read := checksum_read s + raw\<rparr>)
      else if byte_pos s \<ge> 2 + preamble_offset s then s\<lparr>payload := payload s @ [b]\<rparr>
      else s)"

definition decode_data :: "string \<Rightarrow> hla \<Rightarrow> byte \<Rightarrow> hla \<times> outcome" where
  "decode_data dev s b =
     (if \<not> for_us s then (s, Silent)
      else if byte_pos s = 0 \<and> preamble_offset s = 2 then
        (s, if uint b \<noteq> 0x55 then Print (MalformedPreamble 0 b) else Silent)
      else if byte_pos s \<noteq> 0 \<and> byte_pos s = 1 \<and> preamble_offset s = 2 then
        (s, if uint b \<noteq> 0xAA then Print (MalformedPreamble 1 b) else Silent)
      else (parse dev (accumulate s (uint b)) b, Silent))"

text \<open>
  The branch \<^verbatim>\<open>frame.type == 'stop'\<close>. \<open>format_payload\<close> is the computation of the
  local \<^verbatim>\<open>payload\<close>; an index past the end of the bytearray raises \<^verbatim>\<open>IndexError\<close>.
\<close>

definition format_payload :: "hla \<Rightarrow> exn + payload_text" where
  "format_payload s =
     (if read s \<and> type s = ''get_fw_version'' then
        (if 0 < length (payload s) then Inr (Text (decimal (unat (payload s ! 0))))
         else Inl IndexError)
      else if \<not> read s \<and> type s = ''power_switch'' then
        (if 0 < length (payload s)
         then Inr (Text (if uint (payload s ! 0) = 0 then ''OFF'' else ''ON''))
         else Inl IndexError)
      else if read s \<and> type s = ''get_voltage'' then
        (if 2 < length (payload s)
         then Inr (Volt (uint (payload s ! 1) * 256 + uint (payload s ! 2)))
         else Inl IndexError)
      else if type s = ''set_voltage'' then
        (if 1 < length (payload s)
         then Inr (Volt (uint (payload s ! 0) * 256 + uint (payload s ! 1)))
         else Inl IndexError)
      else Inr (Text (if length (payload s) > 0 then concat (map hex02 (payload s))
                      else ''None'')))"

definition resp_types :: "string list" where
  "resp_types = [''set_something_3'', ''power_switch'', ''get_voltage'', ''get_something_9'',
                 ''get_fw_version'', ''get_something_5'', ''set_something_1'']"

definition checksum_verdict :: "hla \<Rightarrow> string" where
  "checksum_verdict s =
     (if checksum_read s = 0 then ''None''
      else if checksum_read s = checksum_calc s then ''OK'' else ''KO'')"

definition decode_stop :: "hla \<Rightarrow> time \<Rightarrow> hla \<times> outcome" where
  "decode_stop s t =
     (if \<not> for_us s then (s, Silent)
      else
        let s1 = s\<lparr>end_of_frame := Some t, last_read := read s\<rparr> in
        if byte_pos s1 = frame_len s1 - 1 + preamble_offset s1 then
          (case format_payload s1 of
             Inl e \<Rightarrow> (s1, Raise e)
           | Inr pl \<Rightarrow>
               (s1\<lparr>byte_pos := 0, frame_len := 99, payload := [], checksum_read := 0,
                    checksum_calc := 0, start_of_frame := start_of_transaction s1\<rparr>,
                Emit \<lparr> f_type = (if read s1 \<and> type s1 \<in> set resp_types
                                  then type s1 @ ''_resp'' else type s1),
                        f_start_time = start_of_frame s1,
                        f_end_time = end_of_frame s1,
                        f_direction = (if last_read s1 then ''response'' else ''request''),
                        f_len = str_int (frame_len s1),
                        f_code = str_int (code s1),
                        f_payload = pl,
                        f_checksum = checksum_verdict s1 \<rparr>))
        else (s1\<lparr>byte_pos := byte_pos s1 + 1\<rparr>, Silent))"

fun decode :: "string \<Rightarrow> hla \<Rightarrow> event \<Rightarrow> hla \<times> outcome" where
  "decode dev s (Error msg) = (s, Print (BusError msg))"
| "decode dev s (Start t) = decode_start s t"
| "decode dev s (Address a r) = decode_address dev s a r"
| "decode dev s (Data b) = decode_data dev s b"
| "decode dev s (Stop t) = decode_stop s t"
| "decode dev s (Other ty) = (s, Silent)"

text \<open>
  The host calls \<^verbatim>\<open>decode\<close> on every event in order. \<open>run\<close> threads the state through
  the calls and collects what each call did; an exception ends the run, with the state
  as the raising call left it.
\<close>

fun raised :: "outcome \<Rightarrow> bool" where
  "raised (Raise x) = True"
| "raised _ = False"

fun run :: "string \<Rightarrow> hla \<Rightarrow> event list \<Rightarrow> hla \<times> outcome list" where
  "run dev s [] = (s, [])"
| "run dev s (e # es) =
     (case decode dev s e of
        (s', out) \<Rightarrow>
          if raised out then (s', [out])
          else (case run dev s' es of (s'', outs) \<Rightarrow> (s'', out # outs)))"

text \<open>The frames a run returned, in order.\<close>

fun frames :: "outcome list \<Rightarrow> analyzer_frame list" where
  "frames [] = []"
| "frames (Emit f # outs) = f # frames outs"
| "frames (_ # outs) = frames outs"

text \<open>One bus transaction: start, address, data bytes, stop.\<close>

definition transaction :: "time \<Rightarrow> byte \<Rightarrow> bool \<Rightarrow> byte list \<Rightarrow> time \<Rightarrow> event list" where
  "transaction t0 a r bs t1 = Start t0 # Address a r # map Data bs @ [Stop t1]"

section \<open>Definitions used to state the properties\<close>

text \<open>Events that belong to the inside of a transaction: data bytes and the stop.\<close>

fun data_or_stop :: "event \<Rightarrow> bool" where
  "data_or_stop (Data b) = True"
| "data_or_stop (Stop t) = True"
| "data_or_stop _ = False"

text \<open>A call that neither returns a frame nor raises.\<close>

fun quiet :: "outcome \<Rightarrow> bool" where
  "quiet Silent = True"
| "quiet (Print d) = True"
| "quiet _ = False"

text \<open>
  The preamble length the address branch selects for a device and a direction.
\<close>

definition preamble :: "string \<Rightarrow> bool \<Rightarrow> int" where
  "preamble dev r = (if r \<and> dev = ''dsPIC'' then 0 else 2)"

text \<open>
  The payload length that the payload interpretation needs, as the specification
  words it: one byte for a get_fw_version read and a power_switch write, three for a
  get_voltage read, two for set_voltage, none otherwise.
\<close>

definition min_payload :: "bool \<Rightarrow> string \<Rightarrow> nat" where
  "min_payload rd ty =
     (if (rd \<and> ty = ''get_fw_version'') \<or> (\<not> rd \<and> ty = ''power_switch'') then 1
      else if rd \<and> ty = ''get_voltage'' then 3
      else if ty = ''set_voltage'' then 2
      else 0)"

text \<open>A state in which the stop event completes a heart_beat frame of length 4.\<close>

definition ex_done :: hla where
  "ex_done = init\<lparr>for_us := True, byte_pos := 3, frame_len := 4, code := 22,
                    type := ''heart_beat'', checksum_read := 26, checksum_calc := 26\<rparr>"

definition ex_done_frame :: analyzer_frame where
  "ex_done_frame = \<lparr>f_type = ''heart_beat'', f_start_time = None, f_end_time = Some 9,
       f_direction = ''request'', f_len = ''4'', f_code = ''22'',
       f_payload = Text ''None'', f_checksum = ''OK''\<rparr>"


definition ex_chk2 :: hla where
  "ex_chk2 = init\<lparr>for_us := True, read := True, preamble_offset := 2, byte_pos := 7,
                    frame_len := 6, checksum_read := 0x12\<rparr>"

text \<open>
  A state in which the stop event completes a get_fw_version response of length 5;
  the payload is still empty.
\<close>

definition ex_fw :: hla where
  "ex_fw = init\<lparr>for_us := True, read := True, byte_pos := 4, frame_len := 5,
                  type := ''get_fw_version''\<rparr>"

text \<open>One byte per transaction: the bytes of \<open>bs\<close>, each in a transaction of its own.\<close>

definition single_bytes :: "time \<Rightarrow> byte \<Rightarrow> bool \<Rightarrow> byte list \<Rightarrow> time \<Rightarrow> event list" where
  "single_bytes t0 a r bs t1 = concat (map (\<lambda>b. transaction t0 a r [b] t1) bs)"

text \<open>
  The state of a transaction on the power-supply profile after the preamble and the
  length byte 23, at the code position.
\<close>

definition ex_code_pos :: hla where
  "ex_code_pos = init\<lparr>for_us := True, preamble_offset := 2, byte_pos := 3, frame_len := 23,
                        checksum_calc := 23\<rparr>"

text \<open>The short heart_beat response of the dsPIC profile: the bytes 22 and 1.\<close>

definition ex_short :: "event list" where
  "ex_short = transaction 0 0x20 True [22] 1 @ transaction 2 0x20 True [1] 3"

definition ex_short_frame :: analyzer_frame where
  "ex_short_frame = \<lparr>f_type = ''heart_beat'', f_start_time = Some 0, f_end_time = Some 3,
       f_direction = ''response'', f_len = ''2'', f_code = ''22'',
       f_payload = Text ''None'', f_checksum = ''None''\<rparr>"


text \<open>
  The state in which the data bytes of a for-us transaction are dispatched: the state
  after its start and address events.
\<close>

definition addressed :: "string \<Rightarrow> hla \<Rightarrow> time \<Rightarrow> bool \<Rightarrow> hla" where
  "addressed dev s t0 r =
     s\<lparr>start_of_transaction := Some t0,
       start_of_frame := (if byte_pos s = 0 then Some t0 else start_of_frame s),
       for_us := True, read := r, preamble_offset := preamble dev r\<rparr>"





text \<open>
  The state of a read transaction on the dsPIC profile after the length byte 23, at
  the code position.
\<close>

definition ex_code_pos_read :: hla where
  "ex_code_pos_read = init\<lparr>for_us := True, read := True, byte_pos := 1, frame_len := 23,
                             checksum_calc := 23\<rparr>"

text \<open>
  A transaction: the time of its start event, its direction, its data bytes and the
  time of its stop event.
\<close>

datatype txn = Txn time bool "byte list" time

fun txn_start :: "txn \<Rightarrow> time" where
  "txn_start (Txn t0 r bs t1) = t0"

fun txn_stop :: "txn \<Rightarrow> time" where
  "txn_stop (Txn t0 r bs t1) = t1"

text \<open>The events of a transaction up to, but not including, its stop event.\<close>

fun txn_head :: "byte \<Rightarrow> txn \<Rightarrow> event list" where
  "txn_head a (Txn t0 r bs t1) = Start t0 # Address a r # map Data bs"

fun txn_events :: "byte \<Rightarrow> txn \<Rightarrow> event list" where
  "txn_events a (Txn t0 r bs t1) = transaction t0 a r bs t1"

text \<open>The test of the stop branch: the position is the last one of the frame.\<close>

definition complete :: "hla \<Rightarrow> bool" where
  "complete s = (byte_pos s = frame_len s - 1 + preamble_offset s)"

text \<open>
  Each transaction of the list, run one after the other from the state \<open>s\<close>, meets its
  stop event before the frame is complete.
\<close>

fun stops_early :: "string \<Rightarrow> byte \<Rightarrow> hla \<Rightarrow> txn list \<Rightarrow> bool" where
  "stops_early dev a s [] = True"
| "stops_early dev a s (x # xs) =
     (\<not> complete (fst (run dev s (txn_head a x))) \<and>
      stops_early dev a (fst (run dev s (txn_events a x))) xs)"

text \<open>
  A heart_beat response of length 4 on the dsPIC profile, one byte per transaction:
  the length 4, the code 22 and the checksum 26, high byte first.
\<close>

definition ex_beat_early :: "txn list" where
  "ex_beat_early = [Txn 10 True [4] 11, Txn 12 True [22] 13, Txn 14 True [0] 15]"

definition ex_beat_last :: txn where
  "ex_beat_last = Txn 16 True [26] 17"

definition ex_beat_frame :: analyzer_frame where
  "ex_beat_frame = \<lparr>f_type = ''heart_beat'', f_start_time = Some 10, f_end_time = Some 17,
       f_direction = ''response'', f_len = ''4'', f_code = ''22'',
       f_payload = Text ''None'', f_checksum = ''OK''\<rparr>"

section \<open>Basic facts\<close>

lemmas decode_defs = decode_start_def decode_address_def decode_data_def decode_stop_def
  accumulate_def parse_def

lemmas eval_defs = init_def transaction_def expected_addr_def get_type_def apw_types_def
  pic_types_def format_payload_def checksum_verdict_def resp_types_def str_int_def hex02_def
  digit_char_def Let_def

lemma decimal_small: "n < 10 \<Longrightarrow> decimal n = [digit_char n]"
  by (simp add: decimal.simps)

lemma decimal_large: "\<not> n < 10 \<Longrightarrow> decimal n = decimal (n div 10) @ [digit_char (n mod 10)]"
  by (subst decimal.simps) simp

lemmas decimal_eval = decimal_small decimal_large

text \<open>A data event never moves the position, never returns a frame and never raises.\<close>

lemma decode_data_fields:
  assumes "decode_data dev s b = (s1, out)"
  shows "byte_pos s1 = byte_pos s \<and> for_us s1 = for_us s \<and> read s1 = read s \<and>
         preamble_offset s1 = preamble_offset s \<and> start_of_frame s1 = start_of_frame s \<and>
         start_of_transaction s1 = start_of_transaction s \<and> quiet out"
  using assms by (auto simp: decode_defs Let_def split: if_splits)

lemma run_data_fields:
  "run dev s (map Data bs) = (s', outs) \<Longrightarrow>
     byte_pos s' = byte_pos s \<and> for_us s' = for_us s \<and> read s' = read s \<and>
     preamble_offset s' = preamble_offset s \<and> start_of_frame s' = start_of_frame s \<and>
     start_of_transaction s' = start_of_transaction s \<and> list_all quiet outs \<and>
     length outs = length bs"
proof (induction bs arbitrary: s s' outs)
  case Nil
  then show ?case by simp
next
  case (Cons b bs)
  obtain s1 o1 where d: "decode_data dev s b = (s1, o1)"
    by (cases "decode_data dev s b")
  obtain s2 o2 where r: "run dev s1 (map Data bs) = (s2, o2)"
    by (cases "run dev s1 (map Data bs)")
  from decode_data_fields [OF d] have q: "quiet o1" by simp
  then have "s' = s2 \<and> outs = o1 # o2"
    using Cons.prems d r by (cases o1) simp_all
  with decode_data_fields [OF d] Cons.IH [OF r] show ?case by simp
qed

lemma run_ignored:
  "\<not> for_us s \<Longrightarrow> list_all data_or_stop es \<Longrightarrow> run dev s es = (s, replicate (length es) Silent)"
proof (induction es)
  case Nil
  then show ?case by simp
next
  case (Cons e es)
  then show ?case by (cases e) (simp_all add: decode_data_def decode_stop_def)
qed

section \<open>The position counter\<close>

text \<open>
  C1 (as stated, refuted). The claim says that each data byte of a for-us transaction
  advances \<open>byte_pos\<close> by one. In a for-us read transaction on the dsPIC profile the
  data byte 4 leaves the position at 0, not 1.
\<close>

theorem data_byte_keeps_position_counterexample:
  "for_us (fst (run ''dsPIC'' init [Start 0, Address 0x20 True])) \<and>
   byte_pos (fst (decode ''dsPIC'' (fst (run ''dsPIC'' init [Start 0, Address 0x20 True])) (Data 4)))
     \<noteq> byte_pos (fst (run ''dsPIC'' init [Start 0, Address 0x20 True])) + 1"
  by (simp add: decode_defs eval_defs)

text \<open>
  C1 (amended). All data bytes of one for-us transaction are dispatched at the
  position the transaction began with: no data event changes \<open>byte_pos\<close>. The position
  is advanced by one by the stop event of the transaction, unless that stop completes
  the frame. So positions 0, 1, 2, ... are taken by the data bytes of successive
  transactions.
\<close>

theorem byte_pos_advances_at_stop:
  assumes "a = expected_addr dev"
    and "run dev s (Start t0 # Address a r # map Data bs) = (s1, outs)"
  shows "byte_pos s1 = byte_pos s \<and>
         (byte_pos s1 \<noteq> frame_len s1 - 1 + preamble_offset s1 \<longrightarrow>
            decode dev s1 (Stop t1) =
              (s1\<lparr>end_of_frame := Some t1, last_read := read s1, byte_pos := byte_pos s + 1\<rparr>,
               Silent))"
proof -
  obtain s0 where s0: "s0 = fst (decode_address dev (fst (decode_start s t0)) a r)"
    by simp
  obtain s' o' where r: "run dev s0 (map Data bs) = (s', o')"
    by (cases "run dev s0 (map Data bs)")
  have f0: "byte_pos s0 = byte_pos s \<and> for_us s0"
    using assms(1) s0 by (simp add: decode_start_def decode_address_def Let_def)
  from run_data_fields [OF r] have q: "list_all quiet o'" by simp
  have "s1 = s'"
    using assms r s0 by (simp add: decode_start_def decode_address_def Let_def split: if_splits)
  with run_data_fields [OF r] f0 have "byte_pos s1 = byte_pos s" "for_us s1"
    by simp_all
  then show ?thesis
    by (simp add: decode_stop_def Let_def)
qed

theorem byte_pos_advances_at_stop_witness:
  "(0x20 :: byte) = expected_addr ''dsPIC'' \<and>
   run ''dsPIC'' init (Start 0 # Address 0x20 True # map Data [4, 23]) =
     (init\<lparr>start_of_transaction := Some 0, start_of_frame := Some 0, for_us := True,
           read := True, frame_len := 23, checksum_calc := 27\<rparr>,
      [Silent, Silent, Silent, Silent]) \<and>
   byte_pos (init\<lparr>start_of_transaction := Some 0, start_of_frame := Some 0, for_us := True,
           read := True, frame_len := 23, checksum_calc := 27\<rparr>) = byte_pos init \<and>
   decode ''dsPIC'' (init\<lparr>start_of_transaction := Some 0, start_of_frame := Some 0,
           for_us := True, read := True, frame_len := 23, checksum_calc := 27\<rparr>) (Stop 1) =
     (init\<lparr>start_of_transaction := Some 0, start_of_frame := Some 0, for_us := True,
           read := True, frame_len := 23, checksum_calc := 27, end_of_frame := Some 1,
           last_read := True, byte_pos := 1\<rparr>, Silent)"
proof -
  have a: "(0x20 :: byte) = expected_addr ''dsPIC''"
    by (simp add: expected_addr_def)
  have h: "run ''dsPIC'' init (Start 0 # Address 0x20 True # map Data [4, 23]) =
     (init\<lparr>start_of_transaction := Some 0, start_of_frame := Some 0, for_us := True,
           read := True, frame_len := 23, checksum_calc := 27\<rparr>,
      [Silent, Silent, Silent, Silent])"
    by (simp add: decode_defs eval_defs)
  from byte_pos_advances_at_stop [OF a h, of 1] a h show ?thesis
    by (simp add: init_def)
qed

section \<open>The checksum verdict\<close>

text \<open>
  C4. Whatever event makes \<open>decode\<close> return a frame, the frame's checksum verdict is a
  function of the declared and the computed checksum of the state before the call
  alone: "None" when the declared checksum is zero, whatever the computed one; else
  "OK" when the two are equal; else "KO".
\<close>

theorem checksum_verdict_pure:
  assumes "decode dev s e = (s', Emit f)"
  shows "f_checksum f =
           (if checksum_read s = 0 then ''None''
            else if checksum_read s = checksum_calc s then ''OK'' else ''KO'')"
  using assms
  by (cases e) (auto simp: decode_defs checksum_verdict_def Let_def split: if_splits sum.splits)

theorem checksum_verdict_pure_witness:
  "decode ''dsPIC'' ex_done (Stop 9) =
     (ex_done\<lparr>end_of_frame := Some 9, last_read := False, byte_pos := 0, frame_len := 99,
              payload := [], checksum_read := 0, checksum_calc := 0,
              start_of_frame := None\<rparr>, Emit ex_done_frame) \<and>
   checksum_read ex_done = checksum_calc ex_done \<and> f_checksum ex_done_frame = ''OK''"
proof -
  have h: "decode ''dsPIC'' ex_done (Stop 9) =
     (ex_done\<lparr>end_of_frame := Some 9, last_read := False, byte_pos := 0, frame_len := 99,
              payload := [], checksum_read := 0, checksum_calc := 0,
              start_of_frame := None\<rparr>, Emit ex_done_frame)"
    by (simp add: ex_done_def ex_done_frame_def decode_stop_def eval_defs decimal_eval)
  from checksum_verdict_pure [OF h] h show ?thesis
    by (simp add: ex_done_def init_def)
qed

section \<open>The byte order of the declared checksum\<close>



section \<open>Transactions for another address\<close>

text \<open>
  C8. An address event whose address byte is not the target address of the profile
  (0x10 for APW, 0x20 for dsPIC) only clears the for-us mark. Every data and stop
  event that follows, up to the next start or address event, leaves the whole state
  unchanged (with it \<open>byte_pos\<close>, \<open>frame_len\<close>, \<open>code\<close>, \<open>payload\<close> and both
  checksums) and returns nothing.
\<close>

theorem not_for_us_ignored:
  assumes "a \<noteq> expected_addr dev" and "list_all data_or_stop es"
  shows "run dev s (Address a r # es) =
           (s\<lparr>for_us := False\<rparr>, replicate (Suc (length es)) Silent) \<and>
         expected_addr ''APW'' = 0x10 \<and> expected_addr ''dsPIC'' = 0x20"
  using assms run_ignored [of "s\<lparr>for_us := False\<rparr>" es dev]
  by (simp add: decode_address_def expected_addr_def)

theorem not_for_us_ignored_witness:
  "(0x20 :: byte) \<noteq> expected_addr ''APW'' \<and>
   list_all data_or_stop [Data 1, Stop 4, Data 3] \<and>
   run ''APW'' ex_chk2 (Address 0x20 True # [Data 1, Stop 4, Data 3]) =
     (ex_chk2\<lparr>for_us := False\<rparr>, [Silent, Silent, Silent, Silent])"
proof -
  have a: "(0x20 :: byte) \<noteq> expected_addr ''APW''"
    by (simp add: expected_addr_def)
  have l: "list_all data_or_stop [Data 1, Stop 4, Data 3]"
    by simp
  from not_for_us_ignored [OF a l, of ex_chk2 True] a l show ?thesis
    by (simp add: numeral_3_eq_3)
qed

section \<open>The payload interpretation\<close>

text \<open>
  C9. At a stop event that completes a frame, the payload interpretation needs
  \<open>min_payload\<close> bytes: one for a get_fw_version read and a power_switch write, three
  for a get_voltage read, two for set_voltage. With a shorter payload the call raises
  IndexError, after recording the end time and the direction, and returns no frame;
  with a payload of that length or more it returns a frame.
\<close>

theorem payload_precondition:
  assumes "for_us s" and "byte_pos s = frame_len s - 1 + preamble_offset s"
  shows "(length (payload s) < min_payload (read s) (type s) \<longrightarrow>
            decode dev s (Stop t) =
              (s\<lparr>end_of_frame := Some t, last_read := read s\<rparr>, Raise IndexError)) \<and>
         (min_payload (read s) (type s) \<le> length (payload s) \<longrightarrow>
            (\<exists>s' f. decode dev s (Stop t) = (s', Emit f)))"
  using assms
  by (auto simp: decode_stop_def format_payload_def min_payload_def Let_def split: if_splits)

theorem payload_precondition_witness:
  "for_us ex_fw \<and> byte_pos ex_fw = frame_len ex_fw - 1 + preamble_offset ex_fw \<and>
   length (payload ex_fw) < min_payload (read ex_fw) (type ex_fw) \<and>
   decode ''dsPIC'' ex_fw (Stop 7) =
     (ex_fw\<lparr>end_of_frame := Some 7, last_read := read ex_fw\<rparr>, Raise IndexError) \<and>
   for_us (ex_fw\<lparr>payload := [7]\<rparr>) \<and>
   byte_pos (ex_fw\<lparr>payload := [7]\<rparr>) =
     frame_len (ex_fw\<lparr>payload := [7]\<rparr>) - 1 + preamble_offset (ex_fw\<lparr>payload := [7]\<rparr>) \<and>
   min_payload (read (ex_fw\<lparr>payload := [7]\<rparr>)) (type (ex_fw\<lparr>payload := [7]\<rparr>))
     \<le> length (payload (ex_fw\<lparr>payload := [7]\<rparr>)) \<and>
   (\<exists>s' f. decode ''dsPIC'' (ex_fw\<lparr>payload := [7]\<rparr>) (Stop 7) = (s', Emit f))"
proof -
  have h1: "for_us ex_fw" "byte_pos ex_fw = frame_len ex_fw - 1 + preamble_offset ex_fw"
    and s1: "length (payload ex_fw) < min_payload (read ex_fw) (type ex_fw)"
    by (simp_all add: ex_fw_def init_def min_payload_def)
  have h2: "for_us (ex_fw\<lparr>payload := [7]\<rparr>)"
    "byte_pos (ex_fw\<lparr>payload := [7]\<rparr>) =
       frame_len (ex_fw\<lparr>payload := [7]\<rparr>) - 1 + preamble_offset (ex_fw\<lparr>payload := [7]\<rparr>)"
    and s2: "min_payload (read (ex_fw\<lparr>payload := [7]\<rparr>)) (type (ex_fw\<lparr>payload := [7]\<rparr>))
       \<le> length (payload (ex_fw\<lparr>payload := [7]\<rparr>))"
    by (simp_all add: ex_fw_def init_def min_payload_def)
  from payload_precondition [OF h1, of "''dsPIC''" 7]
    payload_precondition [OF h2, of "''dsPIC''" 7] h1 s1 h2 s2
  show ?thesis by blast
qed

lemma frames_append: "frames (xs @ ys) = frames xs @ frames ys"
  by (induction xs rule: frames.induct) simp_all

lemma frames_quiet: "list_all quiet outs \<Longrightarrow> frames outs = []"
  by (induction outs rule: frames.induct) simp_all

lemma quiet_not_raised: "quiet out \<Longrightarrow> \<not> raised out"
  by (cases out) simp_all

lemma run_append_quiet:
  "run dev s es = (s1, o1) \<Longrightarrow> list_all quiet o1 \<Longrightarrow>
     run dev s (es @ fs) = (fst (run dev s1 fs), o1 @ snd (run dev s1 fs))"
proof (induction es arbitrary: s s1 o1)
  case Nil
  then show ?case by simp
next
  case (Cons e es)
  obtain sa oa where d: "decode dev s e = (sa, oa)"
    by (cases "decode dev s e")
  obtain sb ob where r: "run dev sa es = (sb, ob)"
    by (cases "run dev sa es")
  have nr: "\<not> raised oa"
  proof
    assume "raised oa"
    with Cons.prems d have "o1 = [oa]" by simp
    with Cons.prems(2) \<open>raised oa\<close> show False by (simp add: quiet_not_raised)
  qed
  with Cons.prems d r have e: "s1 = sb" "o1 = oa # ob"
    by simp_all
  with Cons.prems have "list_all quiet ob" by simp
  from Cons.IH [OF r this] d e nr show ?case
    by (simp add: case_prod_beta)
qed

text \<open>The state after the start, a matching address and the data bytes of a transaction.\<close>

lemma run_head_fields:
  assumes "a = expected_addr dev"
    and "run dev s (Start t0 # Address a r # map Data bs) = (s1, outs)"
  shows "byte_pos s1 = byte_pos s \<and> for_us s1 \<and> read s1 = r \<and>
         preamble_offset s1 = preamble dev r \<and>
         start_of_frame s1 = (if byte_pos s = 0 then Some t0 else start_of_frame s) \<and>
         start_of_transaction s1 = Some t0 \<and> list_all quiet outs"
proof -
  obtain s0 where s0: "s0 = fst (decode_address dev (fst (decode_start s t0)) a r)"
    by simp
  obtain s' o' where r: "run dev s0 (map Data bs) = (s', o')"
    by (cases "run dev s0 (map Data bs)")
  have f0: "byte_pos s0 = byte_pos s \<and> for_us s0 \<and> read s0 = r \<and>
      preamble_offset s0 = preamble dev r \<and>
      start_of_frame s0 = (if byte_pos s = 0 then Some t0 else start_of_frame s) \<and>
      start_of_transaction s0 = Some t0"
    using assms(1) s0 by (simp add: decode_start_def decode_address_def preamble_def Let_def)
  have "s1 = s' \<and> outs = Silent # Silent # o'"
    using assms r s0 by (simp add: decode_start_def decode_address_def Let_def split: if_splits)
  with run_data_fields [OF r] f0 show ?thesis
    by simp
qed

text \<open>What a completing stop returns, and what it resets.\<close>

lemma format_payload_ok:
  assumes "min_payload (read s) (type s) \<le> length (payload s)"
  shows "\<exists>pl. format_payload s = Inr pl"
proof -
  have "format_payload s \<noteq> Inl IndexError"
    using assms by (auto simp: format_payload_def min_payload_def split: if_splits)
  then show ?thesis
    by (cases "format_payload s") (auto intro: exn.exhaust)
qed

lemma format_payload_stop [simp]:
  "format_payload (s\<lparr>end_of_frame := x, last_read := y\<rparr>) = format_payload s"
  by (simp add: format_payload_def)

lemma stop_emits:
  assumes "for_us s" and "byte_pos s = frame_len s - 1 + preamble_offset s"
    and "min_payload (read s) (type s) \<le> length (payload s)"
  shows "\<exists>s' f. decode_stop s t = (s', Emit f) \<and> f_start_time f = start_of_frame s \<and>
           f_end_time f = Some t \<and> f_len f = str_int (frame_len s) \<and>
           f_code f = str_int (code s) \<and> f_checksum f = checksum_verdict s \<and>
           format_payload s = Inr (f_payload f)"
proof -
  from format_payload_ok [OF assms(3)] obtain pl where "format_payload s = Inr pl" ..
  with assms(1,2) show ?thesis
    by (simp add: decode_stop_def checksum_verdict_def Let_def)
qed

lemma emit_resets:
  assumes "decode dev s e = (s', Emit f)"
  shows "byte_pos s' = 0 \<and> frame_len s' = 99 \<and> payload s' = [] \<and> checksum_read s' = 0 \<and>
         checksum_calc s' = 0 \<and> start_of_frame s' = start_of_transaction s \<and>
         code s' = code s \<and> type s' = type s"
proof (cases e)
  case (Stop t)
  with assms show ?thesis
    by (auto simp: decode_stop_def Let_def split: if_splits sum.splits)
next
  case (Data b)
  with assms show ?thesis by (auto simp: decode_data_def split: if_splits)
qed (use assms in \<open>auto simp: decode_start_def decode_address_def Let_def split: if_splits\<close>)

section \<open>The reset after a frame\<close>

text \<open>
  C6 (the code at the failing input). After the short heart_beat response of the dsPIC
  profile has been returned, \<open>code\<close> is still 22 and \<open>type\<close> still "heart_beat", not their
  initial values 99 and the empty string. A next frame that ends before its code
  position (the single byte 1, a frame of declared length 1) is returned with the code
  and the type of the frame before it.
\<close>

theorem reset_keeps_code_and_type:
  "run ''dsPIC'' init ex_short =
     (init\<lparr>start_of_transaction := Some 2, start_of_frame := Some 2, end_of_frame := Some 3,
           read := True, for_us := True, code := 22, type := ''heart_beat''\<rparr>,
      [Silent, Silent, Silent, Silent, Silent, Silent, Silent, Emit ex_short_frame]) \<and>
   code init = 99 \<and> type init = '''' \<and>
   frames (snd (run ''dsPIC'' init (ex_short @ transaction 4 0x20 True [1] 5))) =
     [ex_short_frame,
      \<lparr>f_type = ''heart_beat'', f_start_time = Some 4, f_end_time = Some 5,
       f_direction = ''response'', f_len = ''1'', f_code = ''22'',
       f_payload = Text ''None'', f_checksum = ''None''\<rparr>]"
  by (simp add: ex_short_def ex_short_frame_def decode_defs eval_defs decimal_eval)

section \<open>One byte per transaction\<close>

lemma single_bytes_Nil [simp]: "single_bytes t0 a r [] t1 = []"
  by (simp add: single_bytes_def)



lemma addressed_fields [simp]:
  "for_us (addressed dev s t0 r)" "read (addressed dev s t0 r) = r"
  "preamble_offset (addressed dev s t0 r) = preamble dev r"
  "byte_pos (addressed dev s t0 r) = byte_pos s"
  "frame_len (addressed dev s t0 r) = frame_len s"
  "code (addressed dev s t0 r) = code s"
  "type (addressed dev s t0 r) = type s"
  "payload (addressed dev s t0 r) = payload s"
  "checksum_read (addressed dev s t0 r) = checksum_read s"
  "checksum_calc (addressed dev s t0 r) = checksum_calc s"
  "start_of_frame (addressed dev s t0 r) = (if byte_pos s = 0 then Some t0 else start_of_frame s)"
  by (simp_all add: addressed_def)


lemma stop_advance:
  "for_us s \<Longrightarrow> byte_pos s \<noteq> frame_len s - 1 + preamble_offset s \<Longrightarrow>
     decode_stop s t =
       (s\<lparr>end_of_frame := Some t, last_read := read s, byte_pos := byte_pos s + 1\<rparr>, Silent)"
  by (simp add: decode_stop_def Let_def)















lemma run_seq:
  assumes "run dev s es = (s1, o1)" and "list_all quiet o1" and "run dev s1 fs = (s2, o2)"
  shows "run dev s (es @ fs) = (s2, o1 @ o2)"
  using run_append_quiet [OF assms(1,2), of fs] assms(3) by simp




section \<open>The checksum region\<close>






section \<open>The width of the checksums\<close>










section \<open>The short frame\<close>

lemma format_payload_none:
  assumes "payload s = []" and "min_payload (read s) (type s) = 0"
  shows "format_payload s = Inr (Text ''None'')"
  using assms by (auto simp: format_payload_def min_payload_def split: if_splits)

lemma stop_raises:
  assumes "for_us s" and "byte_pos s = frame_len s - 1 + preamble_offset s"
    and "length (payload s) < min_payload (read s) (type s)"
  shows "decode_stop s t = (s\<lparr>end_of_frame := Some t, last_read := read s\<rparr>, Raise IndexError)"
  using assms
  by (auto simp: decode_stop_def format_payload_def min_payload_def Let_def split: if_splits)

text \<open>
  C3, the example of the specification. On the power-supply profile every transaction
  has a preamble of two positions, so the bytes 23, 1 and two checksum bytes alone are
  not decoded as a short frame: in one transaction all four are dispatched at
  position 0, one per transaction the bytes 23 and 1 fall on the preamble positions,
  and no frame is returned either way. And a short frame is not always returned: on
  the dsPIC profile the response bytes 23, 1 make a short get_fw_version frame, whose
  payload interpretation reads the first payload byte of an empty payload, so the
  completing stop raises IndexError.
\<close>

theorem short_frame_example_counterexample:
  "frames (snd (run ''APW'' init (transaction 0 0x10 False [23, 1, 0, 24] 1))) = [] \<and>
   frames (snd (run ''APW'' init (single_bytes 0 0x10 False [23, 1, 0, 24] 1))) = [] \<and>
   frames (snd (run ''APW'' init (transaction 0 0x10 True [23, 1, 0, 24] 1))) = [] \<and>
   frames (snd (run ''APW'' init (single_bytes 0 0x10 True [23, 1, 0, 24] 1))) = [] \<and>
   run ''dsPIC'' init (single_bytes 0 0x20 True [23, 1] 1) =
     (init\<lparr>byte_pos := 1, start_of_transaction := Some 0, start_of_frame := Some 0,
            end_of_frame := Some 1, read := True, last_read := True, for_us := True,
            frame_len := 2, code := 23, type := ''get_fw_version'', checksum_calc := 24\<rparr>,
      [Silent, Silent, Silent, Silent, Silent, Silent, Silent, Raise IndexError])"
  by (simp add: single_bytes_def decode_defs eval_defs decimal_eval)

text \<open>
  C3, amended. A data byte at the code position (one past the length position) that
  equals 1 makes the frame a short frame: the command code becomes the value parsed
  before as the declared length, and the declared length becomes 2. The frame is then
  complete at the stop of this very transaction, so no payload byte and no checksum
  byte is ever added to it. That stop returns a frame with length 2 and that code
  when the payload interpretation finds the bytes it reads (with the payload "None"
  when the payload is empty), and raises IndexError, returning no frame, when the
  type of the code reads more payload bytes than there are. A byte other than 1 is the
  command code itself and leaves the declared length as it was. In both cases the type
  is looked up from the code and the payload is left as it was. The example: on the
  power-supply profile the bytes 0x55, 0xAA, 23, 1, one per transaction, give exactly
  one frame, with code 23, length 2, the type unknown and an empty payload, and leave
  the decoder at position 0; two bytes that follow are not part of that frame, they
  are dispatched at the preamble positions 0 and 1 of the next one.
\<close>

theorem short_frame:
  assumes "for_us s" and "byte_pos s = preamble_offset s + 1"
  shows "(uint b = 1 \<longrightarrow>
            code (fst (decode dev s (Data b))) = frame_len s \<and>
            frame_len (fst (decode dev s (Data b))) = 2 \<and>
            byte_pos (fst (decode dev s (Data b))) =
              frame_len (fst (decode dev s (Data b))) - 1 +
              preamble_offset (fst (decode dev s (Data b))) \<and>
            (min_payload (read s) (get_type dev (frame_len s)) \<le> length (payload s) \<longrightarrow>
               (\<exists>s' f. decode dev (fst (decode dev s (Data b))) (Stop t) = (s', Emit f) \<and>
                  f_len f = ''2'' \<and> f_code f = str_int (frame_len s) \<and>
                  (payload s = [] \<longrightarrow> f_payload f = Text ''None''))) \<and>
            (length (payload s) < min_payload (read s) (get_type dev (frame_len s)) \<longrightarrow>
               decode dev (fst (decode dev s (Data b))) (Stop t) =
                 ((fst (decode dev s (Data b)))\<lparr>end_of_frame := Some t, last_read := read s\<rparr>,
                  Raise IndexError))) \<and>
         (uint b \<noteq> 1 \<longrightarrow>
            code (fst (decode dev s (Data b))) = uint b \<and>
            frame_len (fst (decode dev s (Data b))) = frame_len s) \<and>
         type (fst (decode dev s (Data b))) = get_type dev (code (fst (decode dev s (Data b)))) \<and>
         payload (fst (decode dev s (Data b))) = payload s \<and>
         frames (snd (run ''APW'' init (single_bytes t0 0x10 r [0x55, 0xAA, 23, 1] t1))) =
           [\<lparr>f_type = ''unknown'', f_start_time = Some t0, f_end_time = Some t1,
             f_direction = (if r then ''response'' else ''request''), f_len = ''2'',
             f_code = ''23'', f_payload = Text ''None'', f_checksum = ''None''\<rparr>] \<and>
         byte_pos (fst (run ''APW'' init (single_bytes t0 0x10 r [0x55, 0xAA, 23, 1] t1))) = 0 \<and>
         frames (snd (run ''APW'' init (single_bytes t0 0x10 r [0x55, 0xAA, 23, 1, k1, k2] t1))) =
           [\<lparr>f_type = ''unknown'', f_start_time = Some t0, f_end_time = Some t1,
             f_direction = (if r then ''response'' else ''request''), f_len = ''2'',
             f_code = ''23'', f_payload = Text ''None'', f_checksum = ''None''\<rparr>] \<and>
         byte_pos (fst (run ''APW'' init
           (single_bytes t0 0x10 r [0x55, 0xAA, 23, 1, k1, k2] t1))) = 2 \<and>
         payload (fst (run ''APW'' init
           (single_bytes t0 0x10 r [0x55, 0xAA, 23, 1, k1, k2] t1))) = []"
proof -
  let ?s1 = "fst (decode dev s (Data b))"
  have step: "?s1 = parse dev (accumulate s (uint b)) b"
    using assms by (auto simp: decode_data_def)
  have one: "uint b = 1 \<Longrightarrow>
      ?s1 = (accumulate s 1)\<lparr>code := frame_len s, frame_len := 2,
                               type := get_type dev (frame_len s)\<rparr>"
    using assms unfolding step by (simp add: parse_def accumulate_def Let_def)
  have other: "uint b \<noteq> 1 \<Longrightarrow>
      ?s1 = (accumulate s (uint b))\<lparr>code := uint b, type := get_type dev (uint b)\<rparr>"
    using assms unfolding step by (simp add: parse_def accumulate_def Let_def)
  have acc: "payload (accumulate s x) = payload s" "read (accumulate s x) = read s"
    "for_us (accumulate s x) = for_us s" "byte_pos (accumulate s x) = byte_pos s"
    "preamble_offset (accumulate s x) = preamble_offset s"
    "frame_len (accumulate s x) = frame_len s" for x
    by (simp_all add: accumulate_def)
  have f1: "for_us ?s1" "byte_pos ?s1 = frame_len ?s1 - 1 + preamble_offset ?s1"
    "frame_len ?s1 = 2" "code ?s1 = frame_len s" "payload ?s1 = payload s"
    "read ?s1 = read s" "type ?s1 = get_type dev (frame_len s)"
    if b: "uint b = 1"
    using assms unfolding one [OF b] by (simp_all add: acc)
  have two: "str_int 2 = ''2''"
    by (simp add: str_int_def decimal_eval digit_char_def)
  have emit: "\<exists>s' f. decode dev ?s1 (Stop t) = (s', Emit f) \<and> f_len f = ''2'' \<and>
        f_code f = str_int (frame_len s) \<and> (payload s = [] \<longrightarrow> f_payload f = Text ''None'')"
    if b: "uint b = 1"
      and m: "min_payload (read s) (get_type dev (frame_len s)) \<le> length (payload s)"
  proof -
    have "min_payload (read ?s1) (type ?s1) \<le> length (payload ?s1)"
      using m unfolding f1 [OF b] .
    from stop_emits [OF f1(1,2) [OF b] this, of t]
    obtain s' f where d: "decode_stop ?s1 t = (s', Emit f)"
      and l': "f_len f = str_int (frame_len ?s1)" and c': "f_code f = str_int (code ?s1)"
      and p: "format_payload ?s1 = Inr (f_payload f)"
      by blast
    from l' c' have l: "f_len f = str_int 2" and c: "f_code f = str_int (frame_len s)"
      unfolding f1(3,4) [OF b] .
    have "f_payload f = Text ''None''" if e: "payload s = []"
    proof -
      have "payload ?s1 = []" "min_payload (read ?s1) (type ?s1) = 0"
        using m e unfolding f1 [OF b] by simp_all
      from format_payload_none [OF this] p show ?thesis by simp
    qed
    with d l c two show ?thesis by simp
  qed
  have rais: "decode dev ?s1 (Stop t) =
        (?s1\<lparr>end_of_frame := Some t, last_read := read s\<rparr>, Raise IndexError)"
    if b: "uint b = 1"
      and m: "length (payload s) < min_payload (read s) (get_type dev (frame_len s))"
  proof -
    have "length (payload ?s1) < min_payload (read ?s1) (type ?s1)"
      using m unfolding f1 [OF b] .
    from stop_raises [OF f1(1,2) [OF b] this, of t]
    have "decode_stop ?s1 t =
        (?s1\<lparr>end_of_frame := Some t, last_read := read s\<rparr>, Raise IndexError)"
      unfolding f1(6) [OF b] .
    then show ?thesis
      by simp
  qed
  have ex1: "frames (snd (run ''APW'' init (single_bytes t0 0x10 r [0x55, 0xAA, 23, 1] t1))) =
           [\<lparr>f_type = ''unknown'', f_start_time = Some t0, f_end_time = Some t1,
             f_direction = (if r then ''response'' else ''request''), f_len = ''2'',
             f_code = ''23'', f_payload = Text ''None'', f_checksum = ''None''\<rparr>]"
    "byte_pos (fst (run ''APW'' init (single_bytes t0 0x10 r [0x55, 0xAA, 23, 1] t1))) = 0"
    by (simp_all add: single_bytes_def decode_defs eval_defs decimal_eval)
  have ex2: "frames (snd (run ''APW'' init (single_bytes t0 0x10 r [0x55, 0xAA, 23, 1, k1, k2] t1))) =
           [\<lparr>f_type = ''unknown'', f_start_time = Some t0, f_end_time = Some t1,
             f_direction = (if r then ''response'' else ''request''), f_len = ''2'',
             f_code = ''23'', f_payload = Text ''None'', f_checksum = ''None''\<rparr>]"
    "byte_pos (fst (run ''APW'' init
           (single_bytes t0 0x10 r [0x55, 0xAA, 23, 1, k1, k2] t1))) = 2"
    "payload (fst (run ''APW'' init
           (single_bytes t0 0x10 r [0x55, 0xAA, 23, 1, k1, k2] t1))) = []"
    by (simp_all add: single_bytes_def decode_defs eval_defs decimal_eval)
  have gen: "(uint b = 1 \<longrightarrow> code ?s1 = frame_len s \<and> frame_len ?s1 = 2 \<and>
        byte_pos ?s1 = frame_len ?s1 - 1 + preamble_offset ?s1) \<and>
      (uint b \<noteq> 1 \<longrightarrow> code ?s1 = uint b \<and> frame_len ?s1 = frame_len s) \<and>
      type ?s1 = get_type dev (code ?s1) \<and> payload ?s1 = payload s"
    using one other assms by (cases "uint b = 1") (simp_all add: acc)
  from gen emit rais ex1 ex2 show ?thesis
    by (simp del: decode.simps)
qed

theorem short_frame_witness:
  "for_us ex_code_pos \<and> byte_pos ex_code_pos = preamble_offset ex_code_pos + 1 \<and>
   uint (1 :: byte) = 1 \<and>
   code (fst (decode ''APW'' ex_code_pos (Data 1))) = 23 \<and>
   frame_len (fst (decode ''APW'' ex_code_pos (Data 1))) = 2 \<and>
   payload ex_code_pos = [] \<and>
   min_payload (read ex_code_pos) (get_type ''APW'' (frame_len ex_code_pos))
     \<le> length (payload ex_code_pos) \<and>
   (\<exists>s' f. decode ''APW'' (fst (decode ''APW'' ex_code_pos (Data 1))) (Stop 8) = (s', Emit f) \<and>
      f_len f = ''2'' \<and> f_code f = ''23'' \<and> f_payload f = Text ''None'') \<and>
   uint (5 :: byte) \<noteq> 1 \<and>
   code (fst (decode ''APW'' ex_code_pos (Data 5))) = 5 \<and>
   frame_len (fst (decode ''APW'' ex_code_pos (Data 5))) = 23 \<and>
   for_us ex_code_pos_read \<and>
   byte_pos ex_code_pos_read = preamble_offset ex_code_pos_read + 1 \<and>
   length (payload ex_code_pos_read)
     < min_payload (read ex_code_pos_read) (get_type ''dsPIC'' (frame_len ex_code_pos_read)) \<and>
   decode ''dsPIC'' (fst (decode ''dsPIC'' ex_code_pos_read (Data 1))) (Stop 8) =
     ((fst (decode ''dsPIC'' ex_code_pos_read (Data 1)))\<lparr>end_of_frame := Some 8,
        last_read := read ex_code_pos_read\<rparr>, Raise IndexError)"
proof -
  have h: "for_us ex_code_pos" "byte_pos ex_code_pos = preamble_offset ex_code_pos + 1"
    and f: "frame_len ex_code_pos = 23" "payload ex_code_pos = []"
    and m: "min_payload (read ex_code_pos) (get_type ''APW'' (frame_len ex_code_pos))
              \<le> length (payload ex_code_pos)"
    by (simp_all add: ex_code_pos_def init_def min_payload_def get_type_def apw_types_def)
  have g: "for_us ex_code_pos_read"
    "byte_pos ex_code_pos_read = preamble_offset ex_code_pos_read + 1"
    and n: "length (payload ex_code_pos_read)
      < min_payload (read ex_code_pos_read) (get_type ''dsPIC'' (frame_len ex_code_pos_read))"
    by (simp_all add: ex_code_pos_read_def init_def min_payload_def get_type_def pic_types_def)
  have d: "str_int 23 = ''23''"
    by (simp add: str_int_def decimal_eval digit_char_def)
  have u: "uint (1 :: byte) = 1" "uint (5 :: byte) \<noteq> 1"
    by simp_all
  from short_frame [OF h, of 1 "''APW''" 8 0 False 0 0 1]
    short_frame [OF h, of 5 "''APW''" 8 0 False 0 0 1]
    short_frame [OF g, of 1 "''dsPIC''" 8 0 False 0 0 1] h f m g n d u
  show ?thesis by (simp del: decode.simps)
qed

section \<open>Frames across transactions\<close>

text \<open>A transaction whose stop event arrives before the frame is complete.\<close>

lemma run_early_txn:
  assumes "a = expected_addr dev" and "\<not> complete (fst (run dev s (txn_head a x)))"
  shows "\<exists>s' outs. run dev s (txn_events a x) = (s', outs) \<and> list_all quiet outs \<and>
           byte_pos s' = byte_pos s + 1 \<and>
           start_of_frame s' = (if byte_pos s = 0 then Some (txn_start x) else start_of_frame s)"
proof -
  obtain t0 r bs t1 where x: "x = Txn t0 r bs t1"
    by (cases x)
  obtain s1 o1 where r: "run dev s (Start t0 # Address a r # map Data bs) = (s1, o1)"
    by (cases "run dev s (Start t0 # Address a r # map Data bs)")
  from run_head_fields [OF assms(1) r]
  have h: "byte_pos s1 = byte_pos s" "for_us s1" "list_all quiet o1"
    "start_of_frame s1 = (if byte_pos s = 0 then Some t0 else start_of_frame s)"
    by simp_all
  from assms(2) x r have "byte_pos s1 \<noteq> frame_len s1 - 1 + preamble_offset s1"
    by (simp add: complete_def del: run.simps)
  from stop_advance [OF h(2) this, of t1]
  have "run dev s1 [Stop t1] =
      (s1\<lparr>end_of_frame := Some t1, last_read := read s1, byte_pos := byte_pos s1 + 1\<rparr>, [Silent])"
    by simp
  from run_seq [OF r h(3) this]
  have "run dev s (transaction t0 a r bs t1) =
      (s1\<lparr>end_of_frame := Some t1, last_read := read s1, byte_pos := byte_pos s1 + 1\<rparr>,
       o1 @ [Silent])"
    by (simp add: transaction_def del: run.simps)
  with x h show ?thesis
    by (simp del: run.simps)
qed

text \<open>Any number of such transactions, one after the other.\<close>

lemma run_early:
  assumes "a = expected_addr dev"
  shows "0 \<le> byte_pos s \<Longrightarrow> stops_early dev a s (x # xs) \<Longrightarrow>
         \<exists>sm om. run dev s (concat (map (txn_events a) (x # xs))) = (sm, om) \<and>
           list_all quiet om \<and> byte_pos sm = byte_pos s + 1 + int (length xs) \<and>
           start_of_frame sm =
             (if byte_pos s = 0 then Some (txn_start x) else start_of_frame s)"
proof (induction xs arbitrary: s x)
  case Nil
  then have "\<not> complete (fst (run dev s (txn_head a x)))"
    by (simp del: run.simps)
  from run_early_txn [OF assms this] show ?case
    by (simp del: run.simps)
next
  case (Cons y ys)
  from Cons.prems(2) have e: "\<not> complete (fst (run dev s (txn_head a x)))"
    and r: "stops_early dev a (fst (run dev s (txn_events a x))) (y # ys)"
    by (simp_all del: run.simps)
  from run_early_txn [OF assms e]
  obtain s' o' where t: "run dev s (txn_events a x) = (s', o')" and q: "list_all quiet o'"
    and b: "byte_pos s' = byte_pos s + 1"
    and f: "start_of_frame s' =
      (if byte_pos s = 0 then Some (txn_start x) else start_of_frame s)"
    by blast
  from b Cons.prems(1) have p: "0 \<le> byte_pos s'" "byte_pos s' \<noteq> 0"
    by simp_all
  from r t have "stops_early dev a s' (y # ys)"
    by simp
  from Cons.IH [OF p(1) this]
  obtain sm om where m: "run dev s' (concat (map (txn_events a) (y # ys))) = (sm, om)"
    and qm: "list_all quiet om" and bm: "byte_pos sm = byte_pos s' + 1 + int (length ys)"
    and fm: "start_of_frame sm = start_of_frame s'"
    using p(2) by auto
  from run_seq [OF t q m]
  have "run dev s (concat (map (txn_events a) (x # y # ys))) = (sm, o' @ om)"
    by (simp del: run.simps)
  with q qm bm fm b f show ?case
    by (simp del: run.simps)
qed

text \<open>
  C7, the scenario of the specification without a frame. On the dsPIC profile the
  response bytes 23 and 1, one per transaction: the stop of the first transaction
  arrives before the frame is complete, and the second transaction completes the
  frame, a short get_fw_version frame. Its stop raises IndexError and no frame is
  returned.
\<close>

theorem repeated_start_counterexample:
  "\<not> complete (fst (run ''dsPIC'' init (txn_head 0x20 (Txn 0 True [23] 1)))) \<and>
   complete (fst (run ''dsPIC'' (fst (run ''dsPIC'' init (txn_events 0x20 (Txn 0 True [23] 1))))
      (txn_head 0x20 (Txn 2 True [1] 3)))) \<and>
   snd (run ''dsPIC'' init
      (txn_events 0x20 (Txn 0 True [23] 1) @ txn_events 0x20 (Txn 2 True [1] 3))) =
     [Silent, Silent, Silent, Silent, Silent, Silent, Silent, Raise IndexError] \<and>
   frames (snd (run ''dsPIC'' init
      (txn_events 0x20 (Txn 0 True [23] 1) @ txn_events 0x20 (Txn 2 True [1] 3)))) = []"
  by (simp add: complete_def decode_defs eval_defs decimal_eval)

text \<open>
  C7, amended. A start event records the frame start only when the position is 0; at
  any other position it leaves the recorded frame start as it is. So, for a frame
  spread over two or more transactions for the analyzer's address, where the stop
  event of every transaction but the last arrives before the frame is complete and
  the last transaction completes it: each of these stops advances the position by one
  instead of resetting it, and the completing stop returns exactly one frame when the
  payload has the bytes that the payload interpretation reads, and raises IndexError,
  returning no frame, when it has not. The start time of the frame is the time of the
  start event of the first of these transactions when the position was 0 there (the
  frame begins with it), and the frame start recorded before otherwise; it is never
  the start time of a later transaction. Its end time is the time of the last stop.
\<close>

theorem repeated_start:
  assumes "a = expected_addr dev" and "0 \<le> byte_pos s"
    and "stops_early dev a s (x # xs)"
    and "run dev s (concat (map (txn_events a) (x # xs))) = (sm, om)"
    and "run dev sm (txn_head a y) = (s2, o2)"
    and "complete s2"
  shows "byte_pos sm = byte_pos s + 1 + int (length xs) \<and> byte_pos s2 = byte_pos sm \<and>
         (min_payload (read s2) (type s2) \<le> length (payload s2) \<longrightarrow>
            (\<exists>f. frames (snd (run dev s (concat (map (txn_events a) (x # xs @ [y]))))) = [f] \<and>
               f_start_time f =
                 (if byte_pos s = 0 then Some (txn_start x) else start_of_frame s) \<and>
               f_end_time f = Some (txn_stop y))) \<and>
         (length (payload s2) < min_payload (read s2) (type s2) \<longrightarrow>
            frames (snd (run dev s (concat (map (txn_events a) (x # xs @ [y]))))) = [] \<and>
            last (snd (run dev s (concat (map (txn_events a) (x # xs @ [y]))))) =
              Raise IndexError) \<and>
         start_of_frame (fst (decode dev z (Start t))) =
           (if byte_pos z = 0 then Some t else start_of_frame z)"
proof -
  let ?E = "concat (map (txn_events a) (x # xs))"
  let ?W = "concat (map (txn_events a) (x # xs @ [y]))"
  obtain t2 r2 bs2 t3 where y: "y = Txn t2 r2 bs2 t3"
    by (cases y)
  from run_early [OF assms(1,2,3)] assms(4)
  have e: "list_all quiet om" "byte_pos sm = byte_pos s + 1 + int (length xs)"
    "start_of_frame sm = (if byte_pos s = 0 then Some (txn_start x) else start_of_frame s)"
    by (simp_all del: run.simps)
  from e(2) assms(2) have nz: "byte_pos sm \<noteq> 0"
    by simp
  from assms(5) y have r2: "run dev sm (Start t2 # Address a r2 # map Data bs2) = (s2, o2)"
    by (simp del: run.simps)
  from run_head_fields [OF assms(1) r2] nz
  have h: "byte_pos s2 = byte_pos sm" "for_us s2" "list_all quiet o2"
    "start_of_frame s2 = start_of_frame sm"
    by simp_all
  from assms(6) have c: "byte_pos s2 = frame_len s2 - 1 + preamble_offset s2"
    by (simp add: complete_def)
  have w: "?W = ?E @ (Start t2 # Address a r2 # map Data bs2) @ [Stop t3]"
    using y by (simp add: transaction_def)
  have run_w: "run dev s ?W = (s3, om @ o2 @ [out])" if "decode_stop s2 t3 = (s3, out)"
    for s3 out
  proof -
    from that have "run dev s2 [Stop t3] = (s3, [out])"
      by simp
    from run_seq [OF r2 h(3) this]
    have "run dev sm ((Start t2 # Address a r2 # map Data bs2) @ [Stop t3]) = (s3, o2 @ [out])" .
    from run_seq [OF assms(4) e(1) this] show ?thesis
      unfolding w .
  qed
  have emit: "\<exists>f. frames (snd (run dev s ?W)) = [f] \<and>
        f_start_time f = (if byte_pos s = 0 then Some (txn_start x) else start_of_frame s) \<and>
        f_end_time f = Some (txn_stop y)"
    if m: "min_payload (read s2) (type s2) \<le> length (payload s2)"
  proof -
    from stop_emits [OF h(2) c m, of t3]
    obtain s3 f where d: "decode_stop s2 t3 = (s3, Emit f)"
      and f: "f_start_time f = start_of_frame s2" "f_end_time f = Some t3"
      by blast
    from run_w [OF d] have "frames (snd (run dev s ?W)) = [f]"
      using e(1) h(3) by (simp add: frames_append frames_quiet del: run.simps)
    with f h(4) e(3) y show ?thesis
      by simp
  qed
  have rais: "frames (snd (run dev s ?W)) = [] \<and> last (snd (run dev s ?W)) = Raise IndexError"
    if m: "length (payload s2) < min_payload (read s2) (type s2)"
  proof -
    from run_w [OF stop_raises [OF h(2) c m, of t3]] show ?thesis
      using e(1) h(3) by (simp add: frames_append frames_quiet del: run.simps)
  qed
  have st: "start_of_frame (fst (decode dev z (Start t))) =
      (if byte_pos z = 0 then Some t else start_of_frame z)"
    by (simp add: decode_start_def Let_def)
  from e(2) h(1) emit rais st show ?thesis
    by (simp del: run.simps decode.simps)
qed

theorem repeated_start_witness:
  "(0x20 :: byte) = expected_addr ''dsPIC'' \<and> 0 \<le> byte_pos init \<and>
   stops_early ''dsPIC'' 0x20 init ex_beat_early \<and>
   complete (fst (run ''dsPIC''
      (fst (run ''dsPIC'' init (concat (map (txn_events 0x20) ex_beat_early))))
      (txn_head 0x20 ex_beat_last))) \<and>
   byte_pos (fst (run ''dsPIC'' init (concat (map (txn_events 0x20) ex_beat_early)))) = 3 \<and>
   frames (snd (run ''dsPIC'' init
      (concat (map (txn_events 0x20) (ex_beat_early @ [ex_beat_last]))))) = [ex_beat_frame] \<and>
   (\<exists>f. frames (snd (run ''dsPIC'' init
          (concat (map (txn_events 0x20) (ex_beat_early @ [ex_beat_last]))))) = [f] \<and>
        f_start_time f = Some 10 \<and> f_end_time f = Some 17) \<and>
   stops_early ''dsPIC'' 0x20 init [Txn 0 True [23] 1] \<and>
   frames (snd (run ''dsPIC'' init
      (concat (map (txn_events 0x20) [Txn 0 True [23] 1, Txn 2 True [1] 3])))) = [] \<and>
   last (snd (run ''dsPIC'' init
      (concat (map (txn_events 0x20) [Txn 0 True [23] 1, Txn 2 True [1] 3])))) =
     Raise IndexError"
proof -
  let ?sm = "init\<lparr>byte_pos := 3, start_of_transaction := Some 14, start_of_frame := Some 10,
      end_of_frame := Some 15, read := True, last_read := True, for_us := True,
      frame_len := 4, code := 22, type := ''heart_beat'', checksum_calc := 26\<rparr>"
  let ?s2 = "?sm\<lparr>start_of_transaction := Some 16, checksum_read := 26\<rparr>"
  let ?tm = "init\<lparr>byte_pos := 1, start_of_transaction := Some 0, start_of_frame := Some 0,
      end_of_frame := Some 1, read := True, last_read := True, for_us := True,
      frame_len := 23, checksum_calc := 23\<rparr>"
  let ?t2 = "?tm\<lparr>start_of_transaction := Some 2, frame_len := 2, code := 23,
      type := ''get_fw_version'', checksum_calc := 24\<rparr>"
  have a: "(0x20 :: byte) = expected_addr ''dsPIC''"
    by (simp add: expected_addr_def)
  have z: "0 \<le> byte_pos init"
    by (simp add: init_def)
  have e1: "stops_early ''dsPIC'' 0x20 init (Txn 10 True [4] 11 #
      [Txn 12 True [22] 13, Txn 14 True [0] 15])"
    by (simp add: complete_def decode_defs eval_defs)
  have m1: "run ''dsPIC'' init (concat (map (txn_events 0x20) (Txn 10 True [4] 11 #
      [Txn 12 True [22] 13, Txn 14 True [0] 15]))) =
      (?sm, [Silent, Silent, Silent, Silent, Silent, Silent, Silent, Silent, Silent, Silent,
             Silent, Silent])"
    by (simp add: decode_defs eval_defs)
  have l1: "run ''dsPIC'' ?sm (txn_head 0x20 (Txn 16 True [26] 17)) =
      (?s2, [Silent, Silent, Silent])"
    by (simp add: decode_defs eval_defs)
  have c1: "complete ?s2" "min_payload (read ?s2) (type ?s2) \<le> length (payload ?s2)"
    by (simp_all add: complete_def init_def min_payload_def)
  have e2: "stops_early ''dsPIC'' 0x20 init (Txn 0 True [23] 1 # [])"
    by (simp add: complete_def decode_defs eval_defs)
  have m2: "run ''dsPIC'' init (concat (map (txn_events 0x20) (Txn 0 True [23] 1 # []))) =
      (?tm, [Silent, Silent, Silent, Silent])"
    by (simp add: decode_defs eval_defs)
  have l2: "run ''dsPIC'' ?tm (txn_head 0x20 (Txn 2 True [1] 3)) =
      (?t2, [Silent, Silent, Silent])"
    by (simp add: decode_defs eval_defs)
  have c2: "complete ?t2" "length (payload ?t2) < min_payload (read ?t2) (type ?t2)"
    by (simp_all add: complete_def init_def min_payload_def)
  have fr: "frames (snd (run ''dsPIC'' init
      (concat (map (txn_events 0x20) (ex_beat_early @ [ex_beat_last]))))) = [ex_beat_frame]"
    by (simp add: ex_beat_early_def ex_beat_last_def ex_beat_frame_def decode_defs eval_defs
        decimal_eval)
  have cm: "complete (fst (run ''dsPIC''
      (fst (run ''dsPIC'' init (concat (map (txn_events 0x20) ex_beat_early))))
      (txn_head 0x20 ex_beat_last)))"
    unfolding ex_beat_early_def ex_beat_last_def m1 fst_conv l1 by (rule c1(1))
  have bp: "byte_pos (fst (run ''dsPIC'' init (concat (map (txn_events 0x20) ex_beat_early)))) = 3"
    unfolding ex_beat_early_def m1 by simp
  from repeated_start [OF a z e1 m1 l1 c1(1), of init 0]
    repeated_start [OF a z e2 m2 l2 c2(1), of init 0] c1(2) c2(2)
  have "(\<exists>f. frames (snd (run ''dsPIC'' init
          (concat (map (txn_events 0x20) (ex_beat_early @ [ex_beat_last]))))) = [f] \<and>
        f_start_time f = Some 10 \<and> f_end_time f = Some 17) \<and>
     frames (snd (run ''dsPIC'' init
      (concat (map (txn_events 0x20) [Txn 0 True [23] 1, Txn 2 True [1] 3])))) = [] \<and>
     last (snd (run ''dsPIC'' init
      (concat (map (txn_events 0x20) [Txn 0 True [23] 1, Txn 2 True [1] 3])))) =
       Raise IndexError"
    by (simp add: ex_beat_early_def ex_beat_last_def init_def del: run.simps)
  with a z e1 e2 cm bp fr show ?thesis
    by (simp add: ex_beat_early_def del: run.simps)
qed

end
